theory Spec2Isabelle
  imports Main
begin

section \<open>JavaScript values used by the Oracle adapter\<close>

text \<open>
  The adapter (\<^verbatim>\<open>packages/cubejs-schema-compiler/src/adapter/OracleQuery.ts\<close>) is a
  text transformer: it receives JavaScript strings and numbers and returns SQL text.
  Strings are modelled as \<^typ>\<open>string\<close>; a \<^typ>\<open>char\<close> stands for one code unit below 256.
  Numbers are modelled by \<open>jsnum\<close>: the integer-valued doubles, \<open>NaN\<close> and the two
  infinities. Integer arithmetic, printing and parsing are exact in the model; JavaScript
  agrees with it on the safe integers (see \<open>isSafeInteger\<close> below), and the theorems
  that compute with a variable number assume that range.
\<close>

datatype jsnum = Fin int | NaN | PosInf | NegInf

datatype jsval = Undefined | Null | Num jsnum | Str string

abbreviation sq :: string where
  "sq \<equiv> [CHR 0x27]"

subsection \<open>Number to string\<close>

definition digit_char :: "nat \<Rightarrow> char" where
  "digit_char d = ''0123456789'' ! d"

fun string_of_nat :: "nat \<Rightarrow> string" where
  "string_of_nat n =
     (if n < 10 then [digit_char n]
      else string_of_nat (n div 10) @ [digit_char (n mod 10)])"

declare string_of_nat.simps [simp del]

definition string_of_int :: "int \<Rightarrow> string" where
  "string_of_int i =
     (if i < 0 then CHR ''-'' # string_of_nat (nat (- i)) else string_of_nat (nat i))"

text \<open>\<^verbatim>\<open>`${n}`\<close> and \<^verbatim>\<open>String(n)\<close> for a number.\<close>

fun numToString :: "jsnum \<Rightarrow> string" where
  "numToString (Fin i) = string_of_int i"
| "numToString NaN = ''NaN''"
| "numToString PosInf = ''Infinity''"
| "numToString NegInf = ''-Infinity''"

fun ToString :: "jsval \<Rightarrow> string" where
  "ToString Undefined = ''undefined''"
| "ToString Null = ''null''"
| "ToString (Num n) = numToString n"
| "ToString (Str s) = s"

subsection \<open>Truthiness, addition, comparison\<close>

fun truthy_num :: "jsnum \<Rightarrow> bool" where
  "truthy_num (Fin i) = (i \<noteq> 0)"
| "truthy_num NaN = False"
| "truthy_num PosInf = True"
| "truthy_num NegInf = True"

fun truthy :: "jsval \<Rightarrow> bool" where
  "truthy Undefined = False"
| "truthy Null = False"
| "truthy (Num n) = truthy_num n"
| "truthy (Str s) = (s \<noteq> [])"

text \<open>\<^verbatim>\<open>Number.isFinite\<close>.\<close>

fun isFinite :: "jsnum \<Rightarrow> bool" where
  "isFinite (Fin i) = True"
| "isFinite NaN = False"
| "isFinite PosInf = False"
| "isFinite NegInf = False"

text \<open>\<^verbatim>\<open>a + b\<close> on numbers.\<close>

fun js_add :: "jsnum \<Rightarrow> jsnum \<Rightarrow> jsnum" where
  "js_add (Fin a) (Fin b) = Fin (a + b)"
| "js_add NaN _ = NaN"
| "js_add _ NaN = NaN"
| "js_add PosInf NegInf = NaN"
| "js_add NegInf PosInf = NaN"
| "js_add PosInf _ = PosInf"
| "js_add _ PosInf = PosInf"
| "js_add NegInf _ = NegInf"
| "js_add _ NegInf = NegInf"

text \<open>\<^verbatim>\<open>a >= b\<close> on numbers: every comparison with \<open>NaN\<close> is false.\<close>

fun js_ge :: "jsnum \<Rightarrow> jsnum \<Rightarrow> bool" where
  "js_ge (Fin a) (Fin b) = (a \<ge> b)"
| "js_ge NaN _ = False"
| "js_ge _ NaN = False"
| "js_ge PosInf _ = True"
| "js_ge NegInf NegInf = True"
| "js_ge NegInf _ = False"
| "js_ge (Fin a) PosInf = False"
| "js_ge (Fin a) NegInf = True"

subsection \<open>Safe integers\<close>

text \<open>
  \<^verbatim>\<open>Number.isSafeInteger\<close>: the integers up to \<^verbatim>\<open>Number.MAX_SAFE_INTEGER\<close>, which is
  \<open>2^53 - 1\<close>, in magnitude. On these, and on sums that stay among them, the doubles of
  JavaScript add, print and parse as the integers of this model do. Beyond them they do
  not: \<^verbatim>\<open>2 ** 53 + 1\<close> is \<^verbatim>\<open>2 ** 53\<close>, \<^verbatim>\<open>String(1e21)\<close> is \<^verbatim>\<open>1e+21\<close> and
  \<^verbatim>\<open>parseInt('9007199254740993', 10)\<close> is \<^verbatim>\<open>9007199254740992\<close>. A statement about
  \<open>js_add\<close>, \<open>numToString\<close> or \<open>parseInt\<close> at a variable number therefore carries the
  hypothesis that the number is a safe integer.
\<close>

definition isSafeInteger :: "int \<Rightarrow> bool" where
  "isSafeInteger i = (- 9007199254740991 \<le> i \<and> i \<le> 9007199254740991)"

subsection \<open>\<^verbatim>\<open>parseInt(s, 10)\<close>\<close>

definition is_digit :: "char \<Rightarrow> bool" where
  "is_digit c = (48 \<le> (of_char c :: nat) \<and> (of_char c :: nat) \<le> 57)"

definition digit_val :: "char \<Rightarrow> nat" where
  "digit_val c = of_char c - 48"

definition digits_val :: "string \<Rightarrow> nat" where
  "digits_val ds = foldl (\<lambda>acc c. 10 * acc + digit_val c) 0 ds"

text \<open>The white space and line terminator code units below 256.\<close>

definition isWhiteSpace :: "char \<Rightarrow> bool" where
  "isWhiteSpace c = ((of_char c :: nat) \<in> set [9, 10, 11, 12, 13, 32, 160])"

text \<open>
  \<^verbatim>\<open>parseInt(s, 10)\<close> on a string: leading white space is skipped, one sign is read,
  then the longest run of decimal digits; no digit gives \<open>NaN\<close>.
\<close>

definition parseInt10 :: "string \<Rightarrow> jsnum" where
  "parseInt10 s =
     (let t = dropWhile isWhiteSpace s;
          neg = (t \<noteq> [] \<and> hd t = CHR ''-'');
          r = (if t \<noteq> [] \<and> (hd t = CHR ''+'' \<or> hd t = CHR ''-'') then tl t else t);
          z = takeWhile is_digit r
      in if z = [] then NaN
         else Fin (if neg then - int (digits_val z) else int (digits_val z)))"

text \<open>\<^verbatim>\<open>parseInt(v, 10)\<close> on any value: the argument is converted to a string first.\<close>

definition parseInt :: "jsval \<Rightarrow> jsnum" where
  "parseInt v = parseInt10 (ToString v)"

section \<open>The query object\<close>

text \<open>
  The fields of \<^verbatim>\<open>OracleQuery\<close> that pagination reads. \<open>oracleVersion\<close> is what
  \<^verbatim>\<open>getEnv('oracleVersion', { dataSource })\<close> returns for the query's data source
  (\<open>None\<close> when the variable is not set); \<open>options\<close> is \<open>None\<close> when
  \<^verbatim>\<open>this.options\<close> is nullish.
\<close>

record query_options =
  limit :: jsval

record oracle_query =
  rowLimit :: jsval
  options :: "query_options option"
  offset :: jsval
  oracleVersion :: "string option"

definition resolvedRowLimit :: "oracle_query \<Rightarrow> jsval" where
  "resolvedRowLimit q =
     (if rowLimit q \<noteq> Undefined then rowLimit q
      else (case options q of None \<Rightarrow> Undefined | Some opts \<Rightarrow> limit opts))"

definition parseRowLimit :: "jsval \<Rightarrow> jsnum" where
  "parseRowLimit rawLimit =
     (if rawLimit = Null \<or> rawLimit = Undefined then Fin 10000
      else let parsed = (case rawLimit of Num n \<Rightarrow> n | _ \<Rightarrow> parseInt rawLimit)
           in if isFinite parsed then parsed else Fin 10000)"

text \<open>\<^verbatim>\<open>envVersion.split('.')\<close>: never empty, \<^verbatim>\<open>''.split('.')\<close> is \<^verbatim>\<open>['']\<close>.\<close>

fun split_on :: "char \<Rightarrow> string \<Rightarrow> string list" where
  "split_on c [] = [[]]"
| "split_on c (x # xs) =
     (if x = c then [] # split_on c xs
      else (case split_on c xs of
              [] \<Rightarrow> [[x]]
            | y # ys \<Rightarrow> (x # y) # ys))"

definition supportsOffsetFetch :: "oracle_query \<Rightarrow> bool" where
  "supportsOffsetFetch q =
     (case oracleVersion q of
        None \<Rightarrow> True
      | Some envVersion \<Rightarrow>
          if envVersion \<noteq> [] then
            (let parts = map parseInt10 (split_on CHR ''.'' envVersion);
                 major = (case parts of
                            [] \<Rightarrow> Fin 12
                          | p # _ \<Rightarrow> if truthy_num p then p else Fin 12)
             in js_ge major (Fin 12))
          else True)"

text \<open>
  The text of the major component of a version string, read as the adapter reads it:
  \<^verbatim>\<open>parseInt(envVersion.split('.')[0], 10)\<close>.
\<close>

abbreviation majorComponent :: "string \<Rightarrow> jsnum" where
  "majorComponent v \<equiv> parseInt10 (hd (split_on CHR ''.'' v))"

text \<open>A query that sets nothing but the version override.\<close>

abbreviation envQuery :: "string option \<Rightarrow> oracle_query" where
  "envQuery v \<equiv>
     \<lparr>rowLimit = Undefined, options = None, offset = Undefined, oracleVersion = v\<rparr>"

definition groupByDimensionLimit :: "oracle_query \<Rightarrow> string" where
  "groupByDimensionLimit q =
     (if \<not> supportsOffsetFetch q then ''''
      else
        let rawRowLimit = resolvedRowLimit q;
            limitClause =
              (if rawRowLimit = Null then ''''
               else '' FETCH NEXT '' @ numToString (parseRowLimit rawRowLimit) @ '' ROWS ONLY'');
            offsetClause =
              (if truthy (offset q)
               then '' OFFSET '' @ numToString (parseInt (offset q)) @ '' ROWS''
               else '''')
        in offsetClause @ limitClause)"

definition wrapQueryWithRownum :: "oracle_query \<Rightarrow> string \<Rightarrow> string" where
  "wrapQueryWithRownum q query =
     (let rawRowLimit = resolvedRowLimit q in
      if rawRowLimit = Null \<and> \<not> truthy (offset q) then query
      else
        let limit = parseRowLimit rawRowLimit;
            offs = (if truthy (offset q) then parseInt (offset q) else Fin 0)
        in if offs = Fin 0
           then ''SELECT * FROM ('' @ query @ '') WHERE ROWNUM <= '' @ numToString limit
           else
             let maxRow = js_add offs limit
             in ''SELECT * FROM (\<newline>  SELECT a.*, ROWNUM rnum FROM (\<newline>'' @ query
                @ ''\<newline>  ) a WHERE ROWNUM <= '' @ numToString maxRow
                @ ''\<newline>) WHERE rnum > '' @ numToString offs)"

text \<open>
  \<^verbatim>\<open>buildSqlAndParams\<close>: the pair \<open>(sql, params)\<close> is the result of the base
  implementation \<^verbatim>\<open>super.buildSqlAndParams\<close>.
\<close>

definition buildSqlAndParams :: "oracle_query \<Rightarrow> string \<times> 'p list \<Rightarrow> string \<times> 'p list" where
  "buildSqlAndParams q base =
     (let sql = fst base; params = snd base;
          rawRowLimit = resolvedRowLimit q;
          needsRownumPagination =
            (\<not> supportsOffsetFetch q \<and> (rawRowLimit \<noteq> Null \<or> truthy (offset q)))
      in if needsRownumPagination then (wrapQueryWithRownum q sql, params)
         else (sql, params))"

section \<open>Time bucketing\<close>

definition GRANULARITY_VALUE :: "(string \<times> string) list" where
  "GRANULARITY_VALUE =
     [(''day'', ''DD''),
      (''week'', ''IW''),
      (''hour'', ''HH24''),
      (''minute'', ''mm''),
      (''second'', ''ss''),
      (''month'', ''MM''),
      (''year'', ''YYYY'')]"

text \<open>
  \<open>granularity\<close> is \<open>None\<close> for \<^verbatim>\<open>undefined\<close>; the empty string is falsy as well.
  A key that the table does not hold reads as \<^verbatim>\<open>undefined\<close>, which the template
  literal prints as the text \<^verbatim>\<open>undefined\<close>. The keys that a JavaScript object
  inherits from \<^verbatim>\<open>Object.prototype\<close>, such as \<^verbatim>\<open>toString\<close>, are no granularities
  and are left out of the table.
\<close>

definition timeGroupedColumn :: "string option \<Rightarrow> string \<Rightarrow> string" where
  "timeGroupedColumn granularity dimension =
     (case granularity of
        None \<Rightarrow> dimension
      | Some g \<Rightarrow>
          if g = [] then dimension
          else ''TRUNC('' @ dimension @ '', '' @ sq
               @ (case map_of GRANULARITY_VALUE g of None \<Rightarrow> ''undefined'' | Some tok \<Rightarrow> tok)
               @ sq @ '')'')"

section \<open>Interval arithmetic\<close>

text \<open>
  Modelled from the spec: the type \<^verbatim>\<open>ParsedInterval\<close> and the function
  \<^verbatim>\<open>parseSqlInterval\<close> of \<^verbatim>\<open>@cubejs-backend/shared\<close> are not part of the sources at
  hand. The spec describes an interval as a mapping from the units year, quarter, month,
  day, hour, minute and second to a signed integer magnitude in which only the units
  that the text mentions are present.
\<close>

record ParsedInterval =
  year :: "int option"
  quarter :: "int option"
  month :: "int option"
  day :: "int option"
  hour :: "int option"
  minute :: "int option"
  second :: "int option"

definition emptyInterval :: ParsedInterval where
  "emptyInterval =
     \<lparr>year = None, quarter = None, month = None, day = None, hour = None, minute = None,
      second = None\<rparr>"

text \<open>
  Modelled from the spec: a magnitude is an optional minus sign and a run of decimal
  digits.
\<close>

definition parse_magnitude :: "string \<Rightarrow> int option" where
  "parse_magnitude t =
     (case t of
        [] \<Rightarrow> None
      | c # cs \<Rightarrow>
          if c = CHR ''-'' then
            (if cs \<noteq> [] \<and> list_all is_digit cs then Some (- int (digits_val cs)) else None)
          else if list_all is_digit t then Some (int (digits_val t))
          else None)"

definition set_unit :: "string \<Rightarrow> int \<Rightarrow> ParsedInterval \<Rightarrow> ParsedInterval option" where
  "set_unit u n ip =
     (if u = ''year'' then Some (ip\<lparr>year := Some n\<rparr>)
      else if u = ''quarter'' then Some (ip\<lparr>quarter := Some n\<rparr>)
      else if u = ''month'' then Some (ip\<lparr>month := Some n\<rparr>)
      else if u = ''day'' then Some (ip\<lparr>day := Some n\<rparr>)
      else if u = ''hour'' then Some (ip\<lparr>hour := Some n\<rparr>)
      else if u = ''minute'' then Some (ip\<lparr>minute := Some n\<rparr>)
      else if u = ''second'' then Some (ip\<lparr>second := Some n\<rparr>)
      else None)"

fun parse_pairs :: "string list \<Rightarrow> ParsedInterval \<Rightarrow> ParsedInterval option" where
  "parse_pairs [] ip = Some ip"
| "parse_pairs [t] ip = None"
| "parse_pairs (t # u # rest) ip =
     (case parse_magnitude t of
        None \<Rightarrow> None
      | Some n \<Rightarrow>
          (case set_unit u n ip of
             None \<Rightarrow> None
           | Some ip' \<Rightarrow> parse_pairs rest ip'))"

text \<open>
  Modelled from the spec: \<^verbatim>\<open>parseSqlInterval\<close> reads a text such as
  \<^verbatim>\<open>1 year 2 quarter 3 month 4 day\<close> as pairs of a magnitude and a unit separated by
  blanks, and returns the empty interval when a token is not recognised.
\<close>

definition parseSqlInterval :: "string \<Rightarrow> ParsedInterval" where
  "parseSqlInterval text =
     (case parse_pairs (filter (\<lambda>w. w \<noteq> []) (split_on CHR '' '' text)) emptyInterval of
        None \<Rightarrow> emptyInterval
      | Some ip \<Rightarrow> ip)"

text \<open>
  \<^verbatim>\<open>if (intervalParsed.unit) { ... }\<close>: the body runs when the unit is present and its
  magnitude is not zero.
\<close>

fun whenTruthy :: "int option \<Rightarrow> (int \<Rightarrow> 'a) \<Rightarrow> 'a \<Rightarrow> 'a" where
  "whenTruthy None body skip = skip"
| "whenTruthy (Some n) body skip = (if n \<noteq> 0 then body n else skip)"

text \<open>The body of \<^verbatim>\<open>addInterval\<close> after the interval text has been parsed.\<close>

definition addIntervalParsed :: "string \<Rightarrow> ParsedInterval \<Rightarrow> string" where
  "addIntervalParsed date intervalParsed =
     (let res = date;
          totalMonths = (0::int);
          totalMonths = whenTruthy (year intervalParsed) (\<lambda>y. totalMonths + y * 12) totalMonths;
          totalMonths = whenTruthy (quarter intervalParsed) (\<lambda>q. totalMonths + q * 3) totalMonths;
          totalMonths = whenTruthy (month intervalParsed) (\<lambda>m. totalMonths + m) totalMonths;
          res = (if totalMonths \<noteq> 0
                 then ''ADD_MONTHS('' @ res @ '', '' @ string_of_int totalMonths @ '')''
                 else res);
          res = whenTruthy (day intervalParsed)
                  (\<lambda>n. res @ '' + NUMTODSINTERVAL('' @ string_of_int n @ '', '' @ sq @ ''DAY'' @ sq @ '')'') res;
          res = whenTruthy (hour intervalParsed)
                  (\<lambda>n. res @ '' + NUMTODSINTERVAL('' @ string_of_int n @ '', '' @ sq @ ''HOUR'' @ sq @ '')'') res;
          res = whenTruthy (minute intervalParsed)
                  (\<lambda>n. res @ '' + NUMTODSINTERVAL('' @ string_of_int n @ '', '' @ sq @ ''MINUTE'' @ sq @ '')'') res;
          res = whenTruthy (second intervalParsed)
                  (\<lambda>n. res @ '' + NUMTODSINTERVAL('' @ string_of_int n @ '', '' @ sq @ ''SECOND'' @ sq @ '')'') res
      in res)"


text \<open>
  The body of \<^verbatim>\<open>subtractInterval\<close>: the months are printed behind a minus sign,
  \<^verbatim>\<open>`ADD_MONTHS(${res}, -${totalMonths})`\<close>.
\<close>

definition subtractIntervalParsed :: "string \<Rightarrow> ParsedInterval \<Rightarrow> string" where
  "subtractIntervalParsed date intervalParsed =
     (let res = date;
          totalMonths = (0::int);
          totalMonths = whenTruthy (year intervalParsed) (\<lambda>y. totalMonths + y * 12) totalMonths;
          totalMonths = whenTruthy (quarter intervalParsed) (\<lambda>q. totalMonths + q * 3) totalMonths;
          totalMonths = whenTruthy (month intervalParsed) (\<lambda>m. totalMonths + m) totalMonths;
          res = (if totalMonths \<noteq> 0
                 then ''ADD_MONTHS('' @ res @ '', -'' @ string_of_int totalMonths @ '')''
                 else res);
          res = whenTruthy (day intervalParsed)
                  (\<lambda>n. res @ '' - NUMTODSINTERVAL('' @ string_of_int n @ '', '' @ sq @ ''DAY'' @ sq @ '')'') res;
          res = whenTruthy (hour intervalParsed)
                  (\<lambda>n. res @ '' - NUMTODSINTERVAL('' @ string_of_int n @ '', '' @ sq @ ''HOUR'' @ sq @ '')'') res;
          res = whenTruthy (minute intervalParsed)
                  (\<lambda>n. res @ '' - NUMTODSINTERVAL('' @ string_of_int n @ '', '' @ sq @ ''MINUTE'' @ sq @ '')'') res;
          res = whenTruthy (second intervalParsed)
                  (\<lambda>n. res @ '' - NUMTODSINTERVAL('' @ string_of_int n @ '', '' @ sq @ ''SECOND'' @ sq @ '')'') res
      in res)"

definition subtractInterval :: "string \<Rightarrow> string \<Rightarrow> string" where
  "subtractInterval date interval = subtractIntervalParsed date (parseSqlInterval interval)"

subsection \<open>The shape of an interval expression, in the words of the specification\<close>

text \<open>
  The magnitude of a unit, zero when the unit is absent, and the additive term of a
  duration unit: one \<^verbatim>\<open>+ NUMTODSINTERVAL(n, 'UNIT')\<close> for a unit that is present with
  a magnitude other than zero, nothing otherwise.
\<close>

definition magnitude :: "int option \<Rightarrow> int" where
  "magnitude v = (case v of None \<Rightarrow> 0 | Some n \<Rightarrow> n)"


section \<open>Grouping\<close>

text \<open>
  An entry of \<^verbatim>\<open>forSelect()\<close>. \<open>dimension\<close> is \<open>None\<close> when the entry has no such
  property (a measure); \<open>selectColumns\<close> is \<open>None\<close> when the entry has no such method,
  \<open>Some None\<close> when the method returns \<^verbatim>\<open>null\<close> and \<open>Some (Some cols)\<close> when it returns
  an array, which is truthy even when empty; \<open>dimensionSql\<close> is what
  \<^verbatim>\<open>item.dimensionSql()\<close> returns.
\<close>

record select_item =
  dimension :: "string option"
  selectColumns :: "string list option option"
  dimensionSql :: string

text \<open>\<^verbatim>\<open>!!item.dimension && item.selectColumns && item.selectColumns()\<close>\<close>

definition hasSelectColumns :: "select_item \<Rightarrow> bool" where
  "hasSelectColumns item =
     ((case dimension item of None \<Rightarrow> False | Some d \<Rightarrow> d \<noteq> [])
      \<and> (case selectColumns item of
            None \<Rightarrow> False
          | Some None \<Rightarrow> False
          | Some (Some cols) \<Rightarrow> True))"

text \<open>\<^verbatim>\<open>Array.prototype.join\<close>\<close>

fun join :: "string \<Rightarrow> string list \<Rightarrow> string" where
  "join sep [] = []"
| "join sep [x] = x"
| "join sep (x # y # zs) = x @ sep @ join sep (y # zs)"

definition groupByClause :: "select_item list \<Rightarrow> string" where
  "groupByClause forSelect =
     (let dimensions = filter hasSelectColumns forSelect
      in if length dimensions = 0 then ''''
         else '' GROUP BY '' @ join '', '' (map dimensionSql dimensions))"

section \<open>Filters\<close>

text \<open>
  \<^verbatim>\<open>OracleFilter.likeIgnoreCase\<close>. \<open>allocateParam\<close> is the inherited
  \<^verbatim>\<open>this.allocateParam\<close>, which returns the placeholder text of a parameter;
  \<open>matchType\<close> is \<open>None\<close> for \<^verbatim>\<open>undefined\<close>, and the empty string is falsy as well.
\<close>

definition likeIgnoreCase ::
  "('p \<Rightarrow> string) \<Rightarrow> string \<Rightarrow> bool \<Rightarrow> 'p \<Rightarrow> string option \<Rightarrow> string" where
  "likeIgnoreCase allocateParam column negated param matchType =
     (let falsy = (matchType = None \<or> matchType = Some []);
          p = (if falsy \<or> matchType = Some ''contains'' \<or> matchType = Some ''ends''
               then sq @ ''%'' @ sq @ '' || '' else '''');
          s = (if falsy \<or> matchType = Some ''contains'' \<or> matchType = Some ''starts''
               then '' || '' @ sq @ ''%'' @ sq else '''')
      in column @ (if negated then '' NOT'' else '''') @ '' LIKE '' @ p
         @ allocateParam param @ s)"

section \<open>Pre-aggregation table names\<close>

datatype error = UserError string

text \<open>
  \<open>base\<close> is the inherited \<^verbatim>\<open>super.preAggregationTableName\<close>; a thrown
  \<^verbatim>\<open>UserError\<close> is the left summand.
\<close>

definition preAggregationTableName ::
  "('c \<Rightarrow> 'n \<Rightarrow> bool \<Rightarrow> string) \<Rightarrow> 'c \<Rightarrow> 'n \<Rightarrow> bool \<Rightarrow> error + string" where
  "preAggregationTableName base cube preAggregationName skipSchema =
     (let name = base cube preAggregationName skipSchema
      in if length name > 128
         then Inl (UserError
                (''Oracle can not work with table names that longer than 64 symbols. ''
                 @ ''Consider using the '' @ sq @ ''sqlAlias'' @ sq
                 @ '' attribute in your cube and in your pre-aggregation definition for ''
                 @ name @ ''.''))
         else Inr name)"

section \<open>Printing and parsing of integers\<close>

lemma below_ten: "d < 10 \<Longrightarrow> d \<in> {0, 1, 2, 3, 4, 5, 6, 7, 8, 9::nat}"
  by auto

lemma is_digit_digit_char: "d < 10 \<Longrightarrow> is_digit (digit_char d)"
  using below_ten [of d] by (auto simp: is_digit_def digit_char_def)

lemma digit_val_digit_char: "d < 10 \<Longrightarrow> digit_val (digit_char d) = d"
  using below_ten [of d] by (auto simp: digit_val_def digit_char_def)

lemma string_of_nat_ne: "string_of_nat n \<noteq> []"
  by (induction n rule: string_of_nat.induct) (subst string_of_nat.simps, simp)

lemma string_of_nat_digits: "\<forall>c \<in> set (string_of_nat n). is_digit c"
proof (induction n rule: string_of_nat.induct)
  case (1 n)
  show ?case
  proof (cases "n < 10")
    case True
    then show ?thesis by (subst string_of_nat.simps) (simp add: is_digit_digit_char)
  next
    case False
    with 1 show ?thesis by (subst string_of_nat.simps) (simp add: is_digit_digit_char)
  qed
qed

lemma digits_val_snoc: "digits_val (ds @ [c]) = 10 * digits_val ds + digit_val c"
  by (simp add: digits_val_def)

lemma digits_val_string_of_nat: "digits_val (string_of_nat n) = n"
proof (induction n rule: string_of_nat.induct)
  case (1 n)
  show ?case
  proof (cases "n < 10")
    case True
    then show ?thesis
      by (subst string_of_nat.simps) (simp add: digits_val_def digit_val_digit_char)
  next
    case False
    with 1 show ?thesis
      by (subst string_of_nat.simps) (simp add: digits_val_snoc digit_val_digit_char)
  qed
qed

lemma is_digit_not_ws: "is_digit c \<Longrightarrow> \<not> isWhiteSpace c"
  by (auto simp: is_digit_def isWhiteSpace_def)

lemma is_digit_not_sign: "is_digit c \<Longrightarrow> c \<noteq> CHR ''-'' \<and> c \<noteq> CHR ''+''"
  by (auto simp: is_digit_def)

lemma parseInt10_digits:
  assumes "ds \<noteq> []" and "\<forall>c \<in> set ds. is_digit c"
  shows "parseInt10 ds = Fin (int (digits_val ds))"
proof -
  have hd: "is_digit (hd ds)" using assms by (cases ds) auto
  have dw: "dropWhile isWhiteSpace ds = ds"
    using assms(1) is_digit_not_ws [OF hd] by (cases ds) auto
  have tw: "takeWhile is_digit ds = ds"
    using assms(2) by (simp add: takeWhile_eq_all_conv)
  show ?thesis
    using assms(1) is_digit_not_sign [OF hd] by (simp add: parseInt10_def Let_def dw tw)
qed

lemma parseInt10_minus_digits:
  assumes "ds \<noteq> []" and "\<forall>c \<in> set ds. is_digit c"
  shows "parseInt10 (CHR ''-'' # ds) = Fin (- int (digits_val ds))"
proof -
  have dw: "dropWhile isWhiteSpace (CHR ''-'' # ds) = CHR ''-'' # ds"
    by (simp add: isWhiteSpace_def)
  have tw: "takeWhile is_digit ds = ds"
    using assms(2) by (simp add: takeWhile_eq_all_conv)
  show ?thesis
    using assms(1) by (simp add: parseInt10_def Let_def dw tw del: dropWhile.simps)
qed

text \<open>Parsing the decimal text of an integer gives the integer back.\<close>

lemma parseInt10_string_of_int: "parseInt10 (string_of_int i) = Fin i"
  by (simp add: string_of_int_def parseInt10_digits parseInt10_minus_digits
      string_of_nat_ne string_of_nat_digits digits_val_string_of_nat)

lemma parseInt_Num_Fin:
  assumes "isSafeInteger i"
  shows "parseInt (Num (Fin i)) = Fin i"
  by (simp add: parseInt_def parseInt10_string_of_int)

lemmas eval_number = string_of_int_def string_of_nat.simps digit_char_def

lemmas eval_parseInt =
  parseInt_def parseInt10_def isWhiteSpace_def is_digit_def digits_val_def digit_val_def

section \<open>Pagination by wrapping\<close>

lemma parseRowLimit_Num_Fin: "parseRowLimit (Num (Fin n)) = Fin n"
  by (simp add: parseRowLimit_def)

lemma wrap_single:
  assumes "resolvedRowLimit q = Num (Fin n)" and "isSafeInteger n"
    and "\<not> truthy (offset q)"
  shows "wrapQueryWithRownum q sql =
         ''SELECT * FROM ('' @ sql @ '') WHERE ROWNUM <= '' @ string_of_int n"
  using assms by (simp add: wrapQueryWithRownum_def Let_def parseRowLimit_Num_Fin)

lemma wrap_double:
  assumes "resolvedRowLimit q = Num (Fin n)" and "isSafeInteger n"
    and "offset q = Num (Fin k)" and "k \<noteq> 0" and "isSafeInteger k"
    and "isSafeInteger (k + n)"
  shows "wrapQueryWithRownum q sql =
         ''SELECT * FROM (\<newline>  SELECT a.*, ROWNUM rnum FROM (\<newline>'' @ sql
         @ ''\<newline>  ) a WHERE ROWNUM <= '' @ string_of_int (k + n)
         @ ''\<newline>) WHERE rnum > '' @ string_of_int k"
  using assms
  by (simp add: wrapQueryWithRownum_def Let_def parseRowLimit_Num_Fin parseInt_Num_Fin)

lemma build_wraps:
  assumes "\<not> supportsOffsetFetch q" and "resolvedRowLimit q = Num (Fin n)"
  shows "buildSqlAndParams q (sql, ps) = (wrapQueryWithRownum q sql, ps)"
  using assms by (simp add: buildSqlAndParams_def Let_def)

text \<open>
  Claim C1. On an Oracle version without OFFSET/FETCH, \<^verbatim>\<open>buildSqlAndParams\<close> hands the
  SQL of the base implementation to \<^verbatim>\<open>wrapQueryWithRownum\<close>. For every SQL text and
  every limit \<open>n\<close> that is a safe integer: when the offset is absent or \<open>0\<close> the result is
  the single wrap \<^verbatim>\<open>SELECT * FROM (<sql>) WHERE ROWNUM <= n\<close>; when the offset is a safe
  integer \<open>k \<noteq> 0\<close> and \<open>k + n\<close> is a safe integer too, the result is the double wrap
  whose middle layer filters \<^verbatim>\<open>ROWNUM <= k + n\<close> and names the ordinal \<^verbatim>\<open>rnum\<close>, and
  whose outer layer filters \<^verbatim>\<open>rnum > k\<close>. The safe range is where the doubles of the
  code add and print as the integers of the model do.
\<close>

theorem wrapQueryWithRownum_forms:
  assumes "resolvedRowLimit q = Num (Fin n)" and "isSafeInteger n"
  shows "(\<not> supportsOffsetFetch q \<longrightarrow>
            buildSqlAndParams q (sql, ps) = (wrapQueryWithRownum q sql, ps))
       \<and> (offset q = Undefined \<or> offset q = Null \<or> offset q = Num (Fin 0) \<longrightarrow>
            wrapQueryWithRownum q sql =
              ''SELECT * FROM ('' @ sql @ '') WHERE ROWNUM <= '' @ string_of_int n)
       \<and> (offset q = Num (Fin k) \<and> k \<noteq> 0 \<and> isSafeInteger k \<and> isSafeInteger (k + n) \<longrightarrow>
            wrapQueryWithRownum q sql =
              ''SELECT * FROM (\<newline>  SELECT a.*, ROWNUM rnum FROM (\<newline>'' @ sql
              @ ''\<newline>  ) a WHERE ROWNUM <= '' @ string_of_int (k + n)
              @ ''\<newline>) WHERE rnum > '' @ string_of_int k)"
proof (intro conjI impI)
  assume "\<not> supportsOffsetFetch q"
  then show "buildSqlAndParams q (sql, ps) = (wrapQueryWithRownum q sql, ps)"
    using assms(1) by (rule build_wraps)
next
  assume "offset q = Undefined \<or> offset q = Null \<or> offset q = Num (Fin 0)"
  then have "\<not> truthy (offset q)" by auto
  with assms show "wrapQueryWithRownum q sql =
      ''SELECT * FROM ('' @ sql @ '') WHERE ROWNUM <= '' @ string_of_int n"
    by (rule wrap_single)
next
  assume "offset q = Num (Fin k) \<and> k \<noteq> 0 \<and> isSafeInteger k \<and> isSafeInteger (k + n)"
  then show "wrapQueryWithRownum q sql =
      ''SELECT * FROM (\<newline>  SELECT a.*, ROWNUM rnum FROM (\<newline>'' @ sql
      @ ''\<newline>  ) a WHERE ROWNUM <= '' @ string_of_int (k + n)
      @ ''\<newline>) WHERE rnum > '' @ string_of_int k"
    using wrap_double [OF assms, of k sql] by simp
qed

text \<open>
  The theorem at limit 10 on Oracle 11.2: without an offset the single wrap bounded by
  \<^verbatim>\<open><= 10\<close>; with offset 5 the double wrap with inner bound 15 and outer filter
  \<^verbatim>\<open>> 5\<close>.
\<close>

theorem wrapQueryWithRownum_forms_witness:
  "resolvedRowLimit \<lparr>rowLimit = Num (Fin 10), options = None, offset = Num (Fin 5),
       oracleVersion = Some ''11.2''\<rparr> = Num (Fin 10)
   \<and> isSafeInteger 10 \<and> isSafeInteger 5 \<and> isSafeInteger (5 + 10)
   \<and> \<not> supportsOffsetFetch \<lparr>rowLimit = Num (Fin 10), options = None, offset = Num (Fin 5),
       oracleVersion = Some ''11.2''\<rparr>
   \<and> buildSqlAndParams \<lparr>rowLimit = Num (Fin 10), options = None, offset = Num (Fin 5),
       oracleVersion = Some ''11.2''\<rparr> (''SELECT 1 FROM DUAL'', [''p''])
     = (''SELECT * FROM (\<newline>  SELECT a.*, ROWNUM rnum FROM (\<newline>SELECT 1 FROM DUAL\<newline>  ) a WHERE ROWNUM <= 15\<newline>) WHERE rnum > 5'',
        [''p''])
   \<and> buildSqlAndParams \<lparr>rowLimit = Num (Fin 10), options = None, offset = Undefined,
       oracleVersion = Some ''11.2''\<rparr> (''SELECT 1 FROM DUAL'', [''p''])
     = (''SELECT * FROM (SELECT 1 FROM DUAL) WHERE ROWNUM <= 10'', [''p''])"
proof -
  let ?q = "\<lparr>rowLimit = Num (Fin 10), options = None, offset = Num (Fin 5),
       oracleVersion = Some ''11.2''\<rparr>"
  let ?q' = "\<lparr>rowLimit = Num (Fin 10), options = None, offset = Undefined,
       oracleVersion = Some ''11.2''\<rparr>"
  have r: "resolvedRowLimit ?q = Num (Fin 10)" "resolvedRowLimit ?q' = Num (Fin 10)"
    by (simp_all add: resolvedRowLimit_def)
  have s: "isSafeInteger 10" "isSafeInteger 5" "isSafeInteger (5 + 10)"
    by (simp_all add: isSafeInteger_def)
  have v: "\<not> supportsOffsetFetch ?q" "\<not> supportsOffsetFetch ?q'"
    by (simp_all add: supportsOffsetFetch_def Let_def eval_parseInt)
  show ?thesis
    using r s v
      wrapQueryWithRownum_forms [OF r(1) s(1), of "''SELECT 1 FROM DUAL''" "[''p'']" 5]
      wrapQueryWithRownum_forms [OF r(2) s(1), of "''SELECT 1 FROM DUAL''" "[''p'']" 5]
    by (simp add: eval_number)
qed

section \<open>Absent and null limits\<close>

lemma parseRowLimit_absent: "parseRowLimit Undefined = Fin 10000"
  by (simp add: parseRowLimit_def)

lemma native_absent_limit:
  assumes "supportsOffsetFetch q" and "resolvedRowLimit q = Undefined"
    and "\<not> truthy (offset q)"
  shows "groupByDimensionLimit q = '' FETCH NEXT 10000 ROWS ONLY''"
  using assms by (simp add: groupByDimensionLimit_def Let_def parseRowLimit_absent eval_number)

lemma native_null_limit:
  assumes "supportsOffsetFetch q" and "resolvedRowLimit q = Null"
  shows "groupByDimensionLimit q =
         (if truthy (offset q) then '' OFFSET '' @ numToString (parseInt (offset q)) @ '' ROWS''
          else [])"
  using assms by (simp add: groupByDimensionLimit_def Let_def)

lemma wrapping_null_limit_no_offset:
  assumes "resolvedRowLimit q = Null" and "\<not> truthy (offset q)"
  shows "buildSqlAndParams q (sql, ps) = (sql, ps)" and "wrapQueryWithRownum q sql = sql"
  using assms by (simp_all add: buildSqlAndParams_def wrapQueryWithRownum_def Let_def)

lemma wrapping_absent_limit_no_offset:
  assumes "\<not> supportsOffsetFetch q" and "resolvedRowLimit q = Undefined"
    and "\<not> truthy (offset q)"
  shows "buildSqlAndParams q (sql, ps) =
         (''SELECT * FROM ('' @ sql @ '') WHERE ROWNUM <= 10000'', ps)"
  using assms
  by (simp add: buildSqlAndParams_def wrapQueryWithRownum_def Let_def parseRowLimit_absent
      eval_number)

lemma wrapping_null_like_absent:
  assumes "truthy (offset q)"
  shows "wrapQueryWithRownum (q\<lparr>rowLimit := Null\<rparr>) sql =
         wrapQueryWithRownum (q\<lparr>rowLimit := Undefined, options := None\<rparr>) sql"
  using assms
  by (simp add: wrapQueryWithRownum_def resolvedRowLimit_def parseRowLimit_def Let_def)

text \<open>
  Claim C2. The claim asks that an absent limit (default bound 10000) and an explicitly
  null limit (no bound, no wrapping) never paginate alike, also when an offset is present.
  The lemmas above show this for the native clause and for wrapping without an offset.
  With an offset on Oracle 11.2 the code does otherwise (lemma
  \<open>wrapping_null_like_absent\<close>): at \<^verbatim>\<open>rowLimit: null, offset: 5\<close>
  the query is wrapped and bounded by \<^verbatim>\<open>ROWNUM <= 10005\<close>, which is exactly what
  an absent limit gives.
\<close>

theorem null_limit_with_offset_bounded:
  "buildSqlAndParams
     \<lparr>rowLimit = Null, options = None, offset = Num (Fin 5), oracleVersion = Some ''11.2''\<rparr>
     (''SELECT 1 FROM DUAL'', [''p''])
   = (''SELECT * FROM (\<newline>  SELECT a.*, ROWNUM rnum FROM (\<newline>SELECT 1 FROM DUAL\<newline>  ) a WHERE ROWNUM <= 10005\<newline>) WHERE rnum > 5'',
      [''p''])
   \<and> buildSqlAndParams
     \<lparr>rowLimit = Undefined, options = None, offset = Num (Fin 5), oracleVersion = Some ''11.2''\<rparr>
     (''SELECT 1 FROM DUAL'', [''p''])
   = buildSqlAndParams
     \<lparr>rowLimit = Null, options = None, offset = Num (Fin 5), oracleVersion = Some ''11.2''\<rparr>
     (''SELECT 1 FROM DUAL'', [''p''])"
  by (simp add: buildSqlAndParams_def wrapQueryWithRownum_def supportsOffsetFetch_def
      resolvedRowLimit_def parseRowLimit_def Let_def eval_parseInt eval_number)

text \<open>
  A consequence of the theorem: with a null limit and offset 5 the SQL of the base
  implementation does not come back as it went in.
\<close>

theorem null_limit_with_offset_bounded_witness:
  "fst (buildSqlAndParams
     \<lparr>rowLimit = Null, options = None, offset = Num (Fin 5), oracleVersion = Some ''11.2''\<rparr>
     (''SELECT 1 FROM DUAL'', [''p'']))
   \<noteq> ''SELECT 1 FROM DUAL''"
  using null_limit_with_offset_bounded by simp

section \<open>Malformed limits and offsets\<close>

lemma malformed_limit_default:
  assumes "parseInt10 s = NaN"
  shows "parseRowLimit (Str s) = Fin 10000"
  using assms by (simp add: parseRowLimit_def parseInt_def)

lemma native_malformed_offset:
  assumes "supportsOffsetFetch q" and "offset q = Str s" and "s \<noteq> []"
    and "parseInt10 s = NaN"
  shows "groupByDimensionLimit q =
         '' OFFSET NaN ROWS''
         @ (if resolvedRowLimit q = Null then []
            else '' FETCH NEXT '' @ numToString (parseRowLimit (resolvedRowLimit q))
                 @ '' ROWS ONLY'')"
  using assms by (simp add: groupByDimensionLimit_def Let_def parseInt_def)

text \<open>
  Claim C8. A limit that is not numeric falls back to 10000 (lemma
  \<open>malformed_limit_default\<close>), but an offset that is not numeric is not treated as
  absent (lemma \<open>native_malformed_offset\<close>): at \<^verbatim>\<open>offset: 'abc'\<close> the native
  clause reads \<^verbatim>\<open>OFFSET NaN ROWS\<close>, and on Oracle 11.2 the wrapped query filters \<^verbatim>\<open>ROWNUM <= NaN\<close> and \<^verbatim>\<open>rnum > NaN\<close>.
\<close>

theorem malformed_offset_emits_NaN:
  "groupByDimensionLimit
     \<lparr>rowLimit = Num (Fin 10), options = None, offset = Str ''abc'', oracleVersion = None\<rparr>
   = '' OFFSET NaN ROWS FETCH NEXT 10 ROWS ONLY''
   \<and> wrapQueryWithRownum
     \<lparr>rowLimit = Num (Fin 10), options = None, offset = Str ''abc'',
      oracleVersion = Some ''11.2''\<rparr> ''SELECT 1 FROM DUAL''
   = ''SELECT * FROM (\<newline>  SELECT a.*, ROWNUM rnum FROM (\<newline>SELECT 1 FROM DUAL\<newline>  ) a WHERE ROWNUM <= NaN\<newline>) WHERE rnum > NaN''"
  by (simp add: groupByDimensionLimit_def wrapQueryWithRownum_def supportsOffsetFetch_def
      resolvedRowLimit_def parseRowLimit_def Let_def eval_parseInt eval_number)

section \<open>The version override\<close>

lemma split_on_ne: "split_on c s \<noteq> []"
  by (induction s) (auto split: list.splits)

lemma supports_major:
  assumes "oracleVersion q = Some v" and "v \<noteq> []"
  shows "supportsOffsetFetch q =
         js_ge (if truthy_num (majorComponent v) then majorComponent v else Fin 12) (Fin 12)"
proof -
  obtain p ps where s: "split_on CHR ''.'' v = p # ps"
    using split_on_ne [of "CHR ''.''" v] by (cases "split_on CHR ''.'' v") auto
  show ?thesis using assms by (simp add: supportsOffsetFetch_def Let_def s)
qed

text \<open>
  What the code does with the version override. Without one, or with an empty one,
  OFFSET/FETCH is used. With a version string whose major component parses to an
  integer \<open>m\<close>: \<open>m \<noteq> 0\<close> and \<open>m < 12\<close> selects ROWNUM wrapping and \<open>12 \<le> m\<close>
  selects OFFSET/FETCH; a major component that does not parse selects OFFSET/FETCH, and
  so does \<open>m = 0\<close>, because \<^verbatim>\<open>parts[0] || 12\<close> takes a zero for a missing number.
\<close>

lemma supportsOffsetFetch_by_version:
  "(oracleVersion q = None \<or> oracleVersion q = Some [] \<longrightarrow> supportsOffsetFetch q)
   \<and> (oracleVersion q = Some v \<and> v \<noteq> [] \<and> majorComponent v = Fin m \<and> m \<noteq> 0 \<and> m < 12
        \<longrightarrow> \<not> supportsOffsetFetch q)
   \<and> (oracleVersion q = Some v \<and> v \<noteq> [] \<and> majorComponent v = Fin m \<and> 12 \<le> m
        \<longrightarrow> supportsOffsetFetch q)
   \<and> (oracleVersion q = Some v \<and> v \<noteq> [] \<and> majorComponent v = Fin 0
        \<longrightarrow> supportsOffsetFetch q)
   \<and> (oracleVersion q = Some v \<and> v \<noteq> [] \<and> majorComponent v = NaN
        \<longrightarrow> supportsOffsetFetch q)"
proof (intro conjI impI)
  assume "oracleVersion q = None \<or> oracleVersion q = Some []"
  then show "supportsOffsetFetch q" by (auto simp: supportsOffsetFetch_def)
next
  assume "oracleVersion q = Some v \<and> v \<noteq> [] \<and> majorComponent v = Fin m \<and> m \<noteq> 0 \<and> m < 12"
  then show "\<not> supportsOffsetFetch q" by (simp add: supports_major)
next
  assume "oracleVersion q = Some v \<and> v \<noteq> [] \<and> majorComponent v = Fin m \<and> 12 \<le> m"
  then show "supportsOffsetFetch q" by (simp add: supports_major)
next
  assume "oracleVersion q = Some v \<and> v \<noteq> [] \<and> majorComponent v = Fin 0"
  then show "supportsOffsetFetch q" by (simp add: supports_major)
next
  assume "oracleVersion q = Some v \<and> v \<noteq> [] \<and> majorComponent v = NaN"
  then show "supportsOffsetFetch q" by (simp add: supports_major)
qed

text \<open>
  The version strings of the test suite: 11.2 and 11.2.0.4 select wrapping; 12.1, 19.3,
  an unparsable string and no override select OFFSET/FETCH.
\<close>

lemma supportsOffsetFetch_test_versions:
  "majorComponent ''11.2'' = Fin 11 \<and> \<not> supportsOffsetFetch (envQuery (Some ''11.2''))
   \<and> majorComponent ''11.2.0.4'' = Fin 11 \<and> \<not> supportsOffsetFetch (envQuery (Some ''11.2.0.4''))
   \<and> majorComponent ''12.1'' = Fin 12 \<and> supportsOffsetFetch (envQuery (Some ''12.1''))
   \<and> majorComponent ''19.3'' = Fin 19 \<and> supportsOffsetFetch (envQuery (Some ''19.3''))
   \<and> majorComponent ''invalid'' = NaN \<and> supportsOffsetFetch (envQuery (Some ''invalid''))
   \<and> supportsOffsetFetch (envQuery None)"
proof -
  have m: "majorComponent ''11.2'' = Fin 11" "majorComponent ''11.2.0.4'' = Fin 11"
    "majorComponent ''12.1'' = Fin 12" "majorComponent ''19.3'' = Fin 19"
    "majorComponent ''invalid'' = NaN"
    by (simp_all add: eval_parseInt)
  show ?thesis
    using m
      supportsOffsetFetch_by_version [of "envQuery (Some ''11.2'')" "''11.2''" 11]
      supportsOffsetFetch_by_version [of "envQuery (Some ''11.2.0.4'')" "''11.2.0.4''" 11]
      supportsOffsetFetch_by_version [of "envQuery (Some ''12.1'')" "''12.1''" 12]
      supportsOffsetFetch_by_version [of "envQuery (Some ''19.3'')" "''19.3''" 19]
      supportsOffsetFetch_by_version [of "envQuery (Some ''invalid'')" "''invalid''" 0]
      supportsOffsetFetch_by_version [of "envQuery None" "''''" 0]
    by simp
qed

text \<open>
  Claim C3. A major version below 12 is to select ROWNUM wrapping, a major version of
  12 or more and an unparsable string OFFSET/FETCH. The lemmas above show this for every
  version string but those whose major component is 0. At the version string 0.9 the
  major component parses to the integer 0, which is less than 12, and the code selects
  OFFSET/FETCH: the fallback \<^verbatim>\<open>parts[0] || 12\<close>, meant for a component that does not
  parse, takes the parsed 0 as well.
\<close>

theorem major_zero_selects_native:
  "majorComponent ''0.9'' = Fin 0 \<and> (0::int) < 12
   \<and> supportsOffsetFetch (envQuery (Some ''0.9''))"
  by (simp add: supportsOffsetFetch_def Let_def eval_parseInt)

section \<open>Truncation tokens\<close>

lemma timeGroupedColumn_absent: "timeGroupedColumn None expr = expr"
  by (simp add: timeGroupedColumn_def)

lemma timeGroupedColumn_tokens:
  "timeGroupedColumn (Some ''second'') expr = ''TRUNC('' @ expr @ '', 'ss')''"
  "timeGroupedColumn (Some ''minute'') expr = ''TRUNC('' @ expr @ '', 'mm')''"
  "timeGroupedColumn (Some ''hour'') expr = ''TRUNC('' @ expr @ '', 'HH24')''"
  "timeGroupedColumn (Some ''day'') expr = ''TRUNC('' @ expr @ '', 'DD')''"
  "timeGroupedColumn (Some ''week'') expr = ''TRUNC('' @ expr @ '', 'IW')''"
  "timeGroupedColumn (Some ''month'') expr = ''TRUNC('' @ expr @ '', 'MM')''"
  "timeGroupedColumn (Some ''year'') expr = ''TRUNC('' @ expr @ '', 'YYYY')''"
  by (simp_all add: timeGroupedColumn_def GRANULARITY_VALUE_def)

text \<open>
  Claim C6. The identity for an absent granularity and the tokens of seven granularities
  are as the claim says (lemmas \<open>timeGroupedColumn_absent\<close> and
  \<open>timeGroupedColumn_tokens\<close>). The granularity \<^verbatim>\<open>quarter\<close> has no entry in
  \<^verbatim>\<open>GRANULARITY_VALUE\<close>: the lookup gives \<^verbatim>\<open>undefined\<close> and the code returns
  \<^verbatim>\<open>TRUNC(x, 'undefined')\<close>.
\<close>

theorem timeGroupedColumn_quarter:
  "map_of GRANULARITY_VALUE ''quarter'' = None
   \<and> timeGroupedColumn (Some ''quarter'') ''x'' = ''TRUNC(x, 'undefined')''"
  by (simp add: timeGroupedColumn_def GRANULARITY_VALUE_def)

section \<open>Adding and subtracting intervals\<close>

lemma whenTruthy_months: "whenTruthy v (\<lambda>n. t + n * k) t = t + magnitude v * k"
  by (cases v) (simp_all add: magnitude_def)

lemma whenTruthy_month: "whenTruthy v (\<lambda>n. t + n) t = t + magnitude v"
  by (cases v) (simp_all add: magnitude_def)



lemmas eval_interval =
  parseSqlInterval_def parse_magnitude_def set_unit_def emptyInterval_def
  is_digit_def digits_val_def digit_val_def







lemma string_of_int_negate:
  assumes "0 < t"
  shows "string_of_int (- t) = CHR ''-'' # string_of_int t"
  using assms by (simp add: string_of_int_def)

lemma subtract_months_positive:
  assumes "t = 12 * magnitude (year ip) + 3 * magnitude (quarter ip) + magnitude (month ip)"
    and "0 < t"
    and "day ip = None" and "hour ip = None" and "minute ip = None" and "second ip = None"
  shows "subtractIntervalParsed x ip = ''ADD_MONTHS('' @ x @ '', '' @ string_of_int (- t) @ '')''"
proof -
  have "subtractIntervalParsed x ip =
        (if t \<noteq> 0 then ''ADD_MONTHS('' @ x @ '', -'' @ string_of_int t @ '')'' else x)"
    using assms(1,3-6)
    unfolding subtractIntervalParsed_def Let_def whenTruthy_months whenTruthy_month
    by (simp add: mult.commute)
  then show ?thesis
    using assms(2) by (simp add: string_of_int_negate)
qed

text \<open>
  Claim C5. For a positive sum of months \<^verbatim>\<open>subtractInterval\<close> prints the negated
  magnitude (lemma \<open>subtract_months_positive\<close>). For a negative one it does not: the
  minus sign is put in front of the printed number, so at the interval \<^verbatim>\<open>-1 year\<close>,
  where \<^verbatim>\<open>addInterval\<close> gives \<^verbatim>\<open>ADD_MONTHS(x, -12)\<close>, it gives
  \<^verbatim>\<open>ADD_MONTHS(x, --12)\<close> and not the flipped \<^verbatim>\<open>ADD_MONTHS(x, 12)\<close>.
\<close>

theorem subtractInterval_negative_months:
  "subtractIntervalParsed ''x'' (emptyInterval\<lparr>year := Some (- 1)\<rparr>) = ''ADD_MONTHS(x, --12)''
   \<and> addIntervalParsed ''x'' (emptyInterval\<lparr>year := Some (- 1)\<rparr>) = ''ADD_MONTHS(x, -12)''
   \<and> parseSqlInterval ''-1 year'' = emptyInterval\<lparr>year := Some (- 1)\<rparr>
   \<and> subtractInterval ''x'' ''-1 year'' = ''ADD_MONTHS(x, --12)''"
  by (simp add: subtractInterval_def subtractIntervalParsed_def addIntervalParsed_def
      Let_def eval_interval eval_number)

section \<open>The GROUP BY clause\<close>

lemma groupByClause_filtered:
  "groupByClause items =
     (if filter hasSelectColumns items = [] then []
      else '' GROUP BY '' @ join '', '' (map dimensionSql (filter hasSelectColumns items)))"
  by (simp add: groupByClause_def Let_def)

text \<open>
  What \<^verbatim>\<open>join\<close> does, said without it: the first element, and every further element
  behind one separator.
\<close>

lemma join_Cons: "join sep (x # xs) = x @ concat (map (\<lambda>y. sep @ y) xs)"
  by (induction xs arbitrary: x) simp_all

lemma groupByClause_kept:
  assumes "filter hasSelectColumns items = d # ds"
  shows "groupByClause items =
         '' GROUP BY '' @ dimensionSql d @ concat (map (\<lambda>i. '', '' @ dimensionSql i) ds)"
  using assms by (simp add: groupByClause_filtered join_Cons comp_def)

text \<open>
  Claim C7. \<^verbatim>\<open>groupByClause\<close> keeps the entries of the projection that are dimensions
  with select columns; an entry whose \<^verbatim>\<open>selectColumns()\<close> is \<^verbatim>\<open>null\<close> (a time
  dimension without granularity) changes nothing. When no entry is kept the result is the
  empty string, and only then. When the kept entries are \<open>d\<close> followed by \<open>ds\<close>, the
  result is \<^verbatim>\<open>GROUP BY\<close>, the \<^verbatim>\<open>dimensionSql()\<close> of \<open>d\<close>, and for every entry of \<open>ds\<close>,
  in order, a comma, a blank and its \<^verbatim>\<open>dimensionSql()\<close>: with one kept entry the full
  expression of that dimension, with two kept entries the two expressions with
  \<^verbatim>\<open>, \<close> between them.
\<close>

theorem groupByClause_selectable:
  "(filter hasSelectColumns items = [] \<longrightarrow> groupByClause items = [])
   \<and> (filter hasSelectColumns items = d # ds \<longrightarrow>
        groupByClause items =
          '' GROUP BY '' @ dimensionSql d @ concat (map (\<lambda>i. '', '' @ dimensionSql i) ds))
   \<and> (filter hasSelectColumns items = [d] \<longrightarrow> groupByClause items = '' GROUP BY '' @ dimensionSql d)
   \<and> (filter hasSelectColumns items = [d, e] \<longrightarrow>
        groupByClause items = '' GROUP BY '' @ dimensionSql d @ '', '' @ dimensionSql e)
   \<and> (selectColumns it = Some None \<longrightarrow> groupByClause (xs @ it # ys) = groupByClause (xs @ ys))
   \<and> (groupByClause items = [] \<longleftrightarrow> (\<forall>i \<in> set items. \<not> hasSelectColumns i))"
proof (intro conjI impI)
  assume "selectColumns it = Some None"
  then have "\<not> hasSelectColumns it" by (simp add: hasSelectColumns_def)
  then show "groupByClause (xs @ it # ys) = groupByClause (xs @ ys)"
    by (simp add: groupByClause_filtered)
next
  show "groupByClause items = [] \<longleftrightarrow> (\<forall>i \<in> set items. \<not> hasSelectColumns i)"
    by (simp add: groupByClause_filtered filter_empty_conv)
next
  assume "filter hasSelectColumns items = []"
  then show "groupByClause items = []" by (simp add: groupByClause_filtered)
qed (simp_all add: groupByClause_kept)

text \<open>
  The theorem at a projection of two plain dimensions with a time dimension without
  granularity between them: the two plain dimensions are grouped, by their expressions
  with a comma and a blank between them; the time dimension alone gives no clause.
\<close>

theorem groupByClause_selectable_witness:
  "filter hasSelectColumns
     [\<lparr>dimension = Some ''visitors.source'', selectColumns = Some (Some [''source'']),
       dimensionSql = ''visitors.source''\<rparr>,
      \<lparr>dimension = Some ''visitors.createdAt'', selectColumns = Some None,
       dimensionSql = ''visitors.created_at''\<rparr>,
      \<lparr>dimension = Some ''visitors.id'', selectColumns = Some (Some [''id'']),
       dimensionSql = ''visitors.id''\<rparr>]
   = [\<lparr>dimension = Some ''visitors.source'', selectColumns = Some (Some [''source'']),
       dimensionSql = ''visitors.source''\<rparr>,
      \<lparr>dimension = Some ''visitors.id'', selectColumns = Some (Some [''id'']),
       dimensionSql = ''visitors.id''\<rparr>]
   \<and> groupByClause
     [\<lparr>dimension = Some ''visitors.source'', selectColumns = Some (Some [''source'']),
       dimensionSql = ''visitors.source''\<rparr>,
      \<lparr>dimension = Some ''visitors.createdAt'', selectColumns = Some None,
       dimensionSql = ''visitors.created_at''\<rparr>,
      \<lparr>dimension = Some ''visitors.id'', selectColumns = Some (Some [''id'']),
       dimensionSql = ''visitors.id''\<rparr>]
   = '' GROUP BY visitors.source, visitors.id''
   \<and> filter hasSelectColumns
     [\<lparr>dimension = Some ''visitors.createdAt'', selectColumns = Some None,
       dimensionSql = ''visitors.created_at''\<rparr>] = []
   \<and> groupByClause
     [\<lparr>dimension = Some ''visitors.createdAt'', selectColumns = Some None,
       dimensionSql = ''visitors.created_at''\<rparr>] = []"
proof -
  let ?d = "\<lparr>dimension = Some ''visitors.source'', selectColumns = Some (Some [''source'']),
       dimensionSql = ''visitors.source''\<rparr>"
  let ?t = "\<lparr>dimension = Some ''visitors.createdAt'', selectColumns = Some None,
       dimensionSql = ''visitors.created_at''\<rparr>"
  let ?e = "\<lparr>dimension = Some ''visitors.id'', selectColumns = Some (Some [''id'']),
       dimensionSql = ''visitors.id''\<rparr>"
  have f: "filter hasSelectColumns [?d, ?t, ?e] = [?d, ?e]" "filter hasSelectColumns [?t] = []"
    by (simp_all add: hasSelectColumns_def)
  show ?thesis
    using f
      groupByClause_selectable
        [where items = "[?d, ?t, ?e]" and d = ?d and ds = "[?e]" and e = ?e and it = ?t
           and xs = "[]" and ys = "[]"]
      groupByClause_selectable
        [where items = "[?t]" and d = ?d and ds = "[]" and e = ?e and it = ?t
           and xs = "[]" and ys = "[]"]
    by simp
qed

section \<open>Case-insensitive matching\<close>

text \<open>
  Claim C9. For every column expression, negation flag, parameter and match type,
  \<^verbatim>\<open>likeIgnoreCase\<close> renders the column, \<^verbatim>\<open>NOT\<close> exactly when the flag is set,
  \<^verbatim>\<open>LIKE\<close>, the literal \<^verbatim>\<open>'%' ||\<close> exactly when the match type is absent (undefined
  or empty), \<^verbatim>\<open>contains\<close> or \<^verbatim>\<open>ends\<close>, the placeholder of the parameter, and the
  literal \<^verbatim>\<open>|| '%'\<close> exactly when the match type is absent, \<^verbatim>\<open>contains\<close> or
  \<^verbatim>\<open>starts\<close>; \<^verbatim>\<open>exact\<close> has neither wildcard.
\<close>

theorem likeIgnoreCase_shape:
  "likeIgnoreCase alloc column negated param matchType =
     column @ (if negated then '' NOT'' else []) @ '' LIKE ''
     @ (if matchType \<in> {None, Some [], Some ''contains'', Some ''ends''}
        then sq @ ''%'' @ sq @ '' || '' else [])
     @ alloc param
     @ (if matchType \<in> {None, Some [], Some ''contains'', Some ''starts''}
        then '' || '' @ sq @ ''%'' @ sq else [])"
  by (simp add: likeIgnoreCase_def Let_def)

text \<open>The theorem at each match type, with the placeholder \<^verbatim>\<open>?\<close>.\<close>

theorem likeIgnoreCase_shape_witness:
  "likeIgnoreCase (\<lambda>p. ''?'') ''name'' False () None = ''name LIKE '%' || ? || '%'' @ sq
   \<and> likeIgnoreCase (\<lambda>p. ''?'') ''name'' False () (Some ''contains'')
       = ''name LIKE '%' || ? || '%'' @ sq
   \<and> likeIgnoreCase (\<lambda>p. ''?'') ''name'' True () (Some ''starts'')
       = ''name NOT LIKE ? || '%'' @ sq
   \<and> likeIgnoreCase (\<lambda>p. ''?'') ''name'' False () (Some ''ends'') = ''name LIKE '%' || ?''
   \<and> likeIgnoreCase (\<lambda>p. ''?'') ''name'' True () (Some ''exact'') = ''name NOT LIKE ?''"
  using likeIgnoreCase_shape [of "\<lambda>p. ''?''" "''name''" False "()" None]
    likeIgnoreCase_shape [of "\<lambda>p. ''?''" "''name''" False "()" "Some ''contains''"]
    likeIgnoreCase_shape [of "\<lambda>p. ''?''" "''name''" True "()" "Some ''starts''"]
    likeIgnoreCase_shape [of "\<lambda>p. ''?''" "''name''" False "()" "Some ''ends''"]
    likeIgnoreCase_shape [of "\<lambda>p. ''?''" "''name''" True "()" "Some ''exact''"]
  by simp

section \<open>The length of pre-aggregation table names\<close>

text \<open>
  Claim C10. For every cube and pre-aggregation name, \<^verbatim>\<open>preAggregationTableName\<close>
  throws a \<^verbatim>\<open>UserError\<close> if and only if the name that the base implementation
  generates is longer than 128 characters, the identifier length that the adapter checks
  against; the message ends with the offending name and advises the \<^verbatim>\<open>sqlAlias\<close>
  attribute; otherwise the name of the base implementation is returned unchanged.
\<close>

theorem preAggregationTableName_length:
  "((\<exists>msg. preAggregationTableName base c p s = Inl (UserError msg))
      \<longleftrightarrow> 128 < length (base c p s))
   \<and> (128 < length (base c p s) \<longrightarrow>
        preAggregationTableName base c p s =
          Inl (UserError
            (''Oracle can not work with table names that longer than 64 symbols. Consider using the 'sqlAlias' attribute in your cube and in your pre-aggregation definition for ''
             @ base c p s @ ''.'')))
   \<and> (length (base c p s) \<le> 128 \<longrightarrow> preAggregationTableName base c p s = Inr (base c p s))"
  by (auto simp: preAggregationTableName_def Let_def)

text \<open>
  The theorem at a base implementation that joins cube and pre-aggregation name by an
  underscore: a cube name of 125 characters gives a table name of 130 characters and the
  error; the cube \<^verbatim>\<open>visitors\<close> gives \<^verbatim>\<open>visitors_main\<close>.
\<close>

theorem preAggregationTableName_length_witness:
  "128 < length (replicate 125 CHR ''a'' @ ''_main'')
   \<and> preAggregationTableName (\<lambda>c p s. c @ ''_'' @ p) (replicate 125 CHR ''a'') ''main'' False
     = Inl (UserError
         (''Oracle can not work with table names that longer than 64 symbols. Consider using the 'sqlAlias' attribute in your cube and in your pre-aggregation definition for ''
          @ replicate 125 CHR ''a'' @ ''_main.''))
   \<and> length ''visitors_main'' \<le> 128
   \<and> preAggregationTableName (\<lambda>c p s. c @ ''_'' @ p) ''visitors'' ''main'' False
     = Inr ''visitors_main''"
  using preAggregationTableName_length
      [of "\<lambda>c p s. c @ ''_'' @ p" "replicate 125 CHR ''a''" "''main''" False]
    preAggregationTableName_length [of "\<lambda>c p s. c @ ''_'' @ p" "''visitors''" "''main''" False]
  by simp

end
